theory Spec2Isabelle
  imports Complex_Main "HOL-Library.Sublist"
begin

section \<open>The persistent store, the queues and the log\<close>

text \<open>
  The five workers of \<^verbatim>\<open>apps/worker/src/workers\<close> share a Postgres store and five
  BullMQ queues. The model threads one record through every worker: the four tables as
  lists of rows (in insertion order), the key generators of the two tables whose generated
  key the code reads back, the four queues the workers add to, and the lines written to
  the logger.

  Strings are lists of 8-bit code units. A number written in a JSON reply is a
  \<^typ>\<open>real\<close>: the code only compares such numbers and takes their minimum and
  maximum, which is exact on doubles. A value that may be \<^verbatim>\<open>null\<close> or
  \<^verbatim>\<open>undefined\<close> is an \<^typ>\<open>'a option\<close>.
\<close>

text \<open>
  A JavaScript \<^verbatim>\<open>number\<close> as the arithmetic of the runtime produces it: a real, an
  infinity, or \<^verbatim>\<open>NaN\<close>.
\<close>

datatype number = Num real | PosInfinity | NegInfinity | NaN

record posting =
  posting_id :: nat
  source :: string
  source_job_id :: string
  company :: string
  title :: string
  level :: string
  location :: "string option"
  remote_mode :: string
  visa_sponsorship :: string
  description_raw :: string
  description_structured :: string
  apply_url :: string
  date_posted :: "string option"
  fit_score :: "number option"
  fit_reasoning :: "string list option"
  risks :: "string list option"
  status :: string
  notes_col :: "(string option \<times> string option \<times> (string \<times> string) list option) option"

record followup =
  job_id :: nat
  followup_number :: nat
  scheduled_for :: int
  followup_status :: string

record resume_version =
  resume_version_id :: nat
  base_resume_hash :: string
  target_role :: string
  tailored_bullets :: "string list"

record application =
  app_job_id :: nat
  app_resume_version_id :: "nat option"
  cover_letter_id :: "string option"
  qa_answers_id :: "string option"

record CompliancePayload =
  jobId :: nat
  resumeVersionId :: "nat option"
  coverLetter :: "string option"
  tailoredBullets :: "string list option"

datatype log_line = Info string | Warn string | Error string

record state =
  job_postings :: "posting list"
  followups :: "followup list"
  resume_versions :: "resume_version list"
  applications :: "application list"
  next_posting_id :: nat
  next_resume_version_id :: nat
  normalizeQueue :: "nat list"
  fitScoreQueue :: "nat list"
  materialsQueue :: "nat list"
  complianceQueue :: "CompliancePayload list"
  logs :: "log_line list"

text \<open>
  A worker is an \<^verbatim>\<open>async\<close> function: it resolves, or it rejects with an error and
  the broker retries the task. Nothing is rolled back on rejection, so a rejection carries
  the state reached when it happened.
\<close>

datatype error = FetchError | ReasoningError | ParseError | InsertError

type_synonym outcome = "(error \<times> state) + state"

text \<open>
  The reasoning service is external. Its reply to one call is an argument of the worker
  that makes the call: the call rejects (\<open>CallThrows\<close>), or the text it returns is not
  JSON the code can read fields from (\<open>BadJson\<close>: \<^verbatim>\<open>JSON.parse\<close> throws, or
  \<^verbatim>\<open>choices[0]\<close> is missing), or it parses to an object whose fields are read
  through the worker's interface type, each field present or absent (\<open>Parsed\<close>). A reply
  with no content is \<^verbatim>\<open>"{}"\<close>: \<open>Parsed\<close> with every field absent. A field
  is absent when it is missing or \<^verbatim>\<open>null\<close>. A field whose JSON type is not the one
  the interface declares is not represented, with one exception: the score of FitScore,
  the one field the code hands to operations that coerce their argument.

  The prompts, and what only shapes them (the knowledge base, the stripping of markup
  from descriptions), are not modelled: they reach the state only through the reply.
  A log line is its level and message; the structured fields logged with it are left out.
\<close>

datatype 'r reply = CallThrows | BadJson | Parsed 'r

text \<open>\<^verbatim>\<open>a ?? b\<close>.\<close>

definition nullish :: "'a option \<Rightarrow> 'a \<Rightarrow> 'a" where
  "nullish a b = (case a of None \<Rightarrow> b | Some v \<Rightarrow> v)"

definition logger :: "log_line \<Rightarrow> state \<Rightarrow> state" where
  "logger l s = s\<lparr>logs := logs s @ [l]\<rparr>"

text \<open>\<^verbatim>\<open>SELECT ... FROM job_postings WHERE id = $1\<close>, then \<^verbatim>\<open>rows[0]\<close>.\<close>

definition select_posting :: "state \<Rightarrow> nat \<Rightarrow> posting option" where
  "select_posting s j = find (\<lambda>p. posting_id p = j) (job_postings s)"

text \<open>\<^verbatim>\<open>UPDATE job_postings SET ... WHERE id = $1\<close>: every row with that id.\<close>

definition update_posting :: "nat \<Rightarrow> (posting \<Rightarrow> posting) \<Rightarrow> state \<Rightarrow> state" where
  "update_posting j f s =
     s\<lparr>job_postings := map (\<lambda>p. if posting_id p = j then f p else p) (job_postings s)\<rparr>"

section \<open>Compliance\<close>

record flag =
  excerpt :: string
  issue :: string

record ComplianceResult =
  pass :: "bool option"
  flags :: "flag list option"
  summary :: "string option"

text \<open>
  \<^verbatim>\<open>new Date(ms).toISOString().split("T")[0]\<close> is the UTC calendar date of the
  instant \<open>ms\<close> (milliseconds since the epoch). The date is represented by its day number
  since the epoch; the calendar spelling of that day is not modelled.
\<close>

definition iso_date :: "int \<Rightarrow> int" where
  "iso_date ms = ms div 86400000"

text \<open>
  \<^verbatim>\<open>INSERT INTO followups ... ON CONFLICT (job_id, followup_number) DO NOTHING\<close>.
  The conflict target names the unique key of the table. The schema is not part of the
  sources: no foreign key to \<^verbatim>\<open>job_postings\<close> is modelled.
\<close>

definition insert_followup :: "nat \<Rightarrow> int \<Rightarrow> state \<Rightarrow> nat \<times> nat \<Rightarrow> state" where
  "insert_followup j today s nd =
     (let followupNumber = fst nd; daysOffset = snd nd;
          scheduledFor = iso_date (today + int daysOffset * 86400000)
      in if list_ex (\<lambda>f. job_id f = j \<and> followup_number f = followupNumber) (followups s)
         then s
         else s\<lparr>followups := followups s @
                [\<lparr>job_id = j, followup_number = followupNumber,
                  scheduled_for = scheduledFor, followup_status = ''pending''\<rparr>]\<rparr>)"

definition compliance_passed :: "ComplianceResult \<Rightarrow> bool" where
  "compliance_passed result =
     (pass result = Some True \<and> length (nullish (flags result) []) = 0)"

text \<open>
  \<open>runCompliance s today job reply\<close>: \<open>today\<close> is the clock reading of
  \<^verbatim>\<open>new Date()\<close>, \<open>reply\<close> the reasoning service's answer to the fact-check call.
\<close>

definition runCompliance ::
  "state \<Rightarrow> int \<Rightarrow> CompliancePayload \<Rightarrow> ComplianceResult reply \<Rightarrow> outcome" where
  "runCompliance s today job reply =
     (case reply of
        CallThrows \<Rightarrow> Inl (ReasoningError, s)
      | BadJson \<Rightarrow> Inl (ParseError, s)
      | Parsed result \<Rightarrow>
          (let passed = compliance_passed result;
               newStatus = (if passed then ''ReadyForReview'' else ''Drafting'');
               s1 = update_posting (jobId job) (\<lambda>p. p\<lparr>status := newStatus\<rparr>) s
           in if passed
              then Inr (logger
                     (Info ''[compliance] PASSED - status=ReadyForReview, follow-ups scheduled'')
                     (foldl (insert_followup (jobId job) today) s1 [(1, 7), (2, 14)]))
              else Inr (logger
                     (Warn ''[compliance] FAILED - status=Drafting, requires human review'')
                     s1)))"

section \<open>FitScore\<close>

text \<open>
  The fields of \<^verbatim>\<open>FitResult\<close> the worker reads. \<^verbatim>\<open>keywordMatches\<close> is never
  read; \<^verbatim>\<open>recommendation\<close> only reaches a log line.
\<close>

text \<open>
  The interface declares \<^verbatim>\<open>fitScore?: number\<close>, but the reply is cast, not checked, and
  \<^verbatim>\<open>Math.min\<close> applies \<^verbatim>\<open>ToNumber\<close> to whatever value the field holds. A value
  that is present is a JSON number, or it is something else (a string, a boolean, an array,
  an object); the latter is represented by what the runtime's \<^verbatim>\<open>ToNumber\<close> makes of
  it: the string \<^verbatim>\<open>"85"\<close> is \<open>NonNumber (Num 85)\<close>, the string \<^verbatim>\<open>"high"\<close>
  is \<open>NonNumber NaN\<close>.
\<close>

datatype js_value = JNumber real | NonNumber number

fun ToNumber :: "js_value \<Rightarrow> number" where
  "ToNumber (JNumber x) = Num x"
| "ToNumber (NonNumber n) = n"

text \<open>\<^verbatim>\<open>a <= b\<close> on numbers: false as soon as one of them is \<^verbatim>\<open>NaN\<close>.\<close>

fun number_le :: "number \<Rightarrow> number \<Rightarrow> bool" where
  "number_le NaN b = False"
| "number_le a NaN = False"
| "number_le NegInfinity b = True"
| "number_le a PosInfinity = True"
| "number_le (Num a) (Num b) = (a \<le> b)"
| "number_le a b = False"

text \<open>
  \<^verbatim>\<open>Math.min(a, b)\<close> and \<^verbatim>\<open>Math.max(a, b)\<close>: \<^verbatim>\<open>NaN\<close> as soon as one
  argument is.
\<close>

definition Math_min :: "number \<Rightarrow> number \<Rightarrow> number" where
  "Math_min a b = (if a = NaN \<or> b = NaN then NaN else if number_le a b then a else b)"

definition Math_max :: "number \<Rightarrow> number \<Rightarrow> number" where
  "Math_max a b = (if a = NaN \<or> b = NaN then NaN else if number_le a b then b else a)"

record FitResult =
  fitScore :: "js_value option"
  reasoning :: "string list option"
  result_risks :: "string list option"
  recommendation :: "string option"

definition FIT_THRESHOLD :: real where
  "FIT_THRESHOLD = 60"

definition runFitScore :: "state \<Rightarrow> nat \<Rightarrow> FitResult reply \<Rightarrow> outcome" where
  "runFitScore s j reply =
     (case select_posting s j of
        None \<Rightarrow> Inr (logger (Warn ''[fit-score] job not found'') s)
      | Some posting \<Rightarrow>
          (case reply of
             CallThrows \<Rightarrow> Inl (ReasoningError, s)
           | BadJson \<Rightarrow> Inl (ParseError, s)
           | Parsed result \<Rightarrow>
               (let score = Math_max (Num 0)
                              (Math_min (Num 100) (ToNumber (nullish (fitScore result) (JNumber 0))));
                    newStatus = (if number_le (Num FIT_THRESHOLD) score
                                 then ''Shortlisted'' else ''Archived'');
                    s1 = update_posting j
                           (\<lambda>p. p\<lparr>fit_score := Some score,
                                  fit_reasoning := Some (nullish (reasoning result) []),
                                  risks := Some (nullish (result_risks result) []),
                                  status := newStatus\<rparr>) s;
                    s2 = logger (Info ''[fit-score] complete'') s1
                in if newStatus = ''Shortlisted''
                   then Inr (logger (Info ''[fit-score] shortlisted - enqueued materials'')
                               (s2\<lparr>materialsQueue := materialsQueue s2 @ [j]\<rparr>))
                   else Inr s2)))"

text \<open>
  The specification's wording of the clamp, to compare with the
  \<^verbatim>\<open>Math.max(0, Math.min(100, ...))\<close> of the source. \<open>clamp_number\<close> carries it
  to every number: an infinity goes to the bound on its side, \<^verbatim>\<open>NaN\<close> is no number
  of the interval and stays.
\<close>

definition clamp_spec :: "real \<Rightarrow> real" where
  "clamp_spec x = (if x < 0 then 0 else if 100 < x then 100 else x)"

fun clamp_number :: "number \<Rightarrow> number" where
  "clamp_number (Num x) = Num (clamp_spec x)"
| "clamp_number PosInfinity = Num 100"
| "clamp_number NegInfinity = Num 0"
| "clamp_number NaN = NaN"

section \<open>Normalize\<close>

record Normalized =
  normalizedTitle :: "string option"
  normalized_level :: "string option"
  normalized_remoteMode :: "string option"
  normalized_visaSponsorship :: "string option"
  normalizedLocation :: "string option"

text \<open>SQL \<^verbatim>\<open>COALESCE($n, column)\<close>, on a column that is not null and on a nullable one.\<close>

definition COALESCE :: "'a option \<Rightarrow> 'a \<Rightarrow> 'a" where
  "COALESCE param col = (case param of None \<Rightarrow> col | Some v \<Rightarrow> v)"

definition COALESCE_nullable :: "'a option \<Rightarrow> 'a option \<Rightarrow> 'a option" where
  "COALESCE_nullable param col = (case param of None \<Rightarrow> col | Some v \<Rightarrow> Some v)"

definition runNormalize :: "state \<Rightarrow> nat \<Rightarrow> Normalized reply \<Rightarrow> outcome" where
  "runNormalize s j reply =
     (case select_posting s j of
        None \<Rightarrow> Inr (logger (Warn ''[normalize] job not found'') s)
      | Some row \<Rightarrow>
          (case reply of
             CallThrows \<Rightarrow> Inl (ReasoningError, s)
           | BadJson \<Rightarrow> Inl (ParseError, s)
           | Parsed normalized \<Rightarrow>
               (let s1 = update_posting j
                           (\<lambda>p. p\<lparr>title := COALESCE (normalizedTitle normalized) (title p),
                                  level := COALESCE (normalized_level normalized) (level p),
                                  remote_mode :=
                                    COALESCE (normalized_remoteMode normalized) (remote_mode p),
                                  visa_sponsorship :=
                                    COALESCE (normalized_visaSponsorship normalized)
                                      (visa_sponsorship p),
                                  location :=
                                    COALESCE_nullable (normalizedLocation normalized)
                                      (location p)\<rparr>) s;
                    s2 = s1\<lparr>fitScoreQueue := fitScoreQueue s1 @ [j]\<rparr>
                in Inr (logger (Info ''[normalize] complete - enqueued fit-score'') s2))))"

section \<open>Materials\<close>

record GeneratedMaterials =
  gen_coverLetter :: "string option"
  gen_tailoredBullets :: "string list option"
  whyCompany :: "string option"
  qaAnswers :: "(string \<times> string) list option"

text \<open>\<^verbatim>\<open>String(n)\<close> and \<^verbatim>\<open>`${n}`\<close> of a natural number: its decimal digits.\<close>

fun String :: "nat \<Rightarrow> string" where
  "String n =
     (if n < 10 then [char_of (48 + n)] else String (n div 10) @ [char_of (48 + n mod 10)])"

text \<open>
  \<^verbatim>\<open>INSERT INTO resume_versions ... RETURNING id\<close>: no conflict clause, a row is
  always added. The generated key is modelled as a counter.
\<close>

definition insert_resume_version ::
  "string \<Rightarrow> string \<Rightarrow> string list \<Rightarrow> state \<Rightarrow> nat \<times> state" where
  "insert_resume_version baseHash role bullets s =
     (let new_id = next_resume_version_id s
      in (new_id,
          s\<lparr>resume_versions := resume_versions s @
               [\<lparr>resume_version_id = new_id, base_resume_hash = baseHash,
                 target_role = role, tailored_bullets = bullets\<rparr>],
            next_resume_version_id := Suc new_id\<rparr>))"

text \<open>
  Modelled from the spec: the schema of \<^verbatim>\<open>applications\<close> is not part of the
  sources. The statement is
  \<^verbatim>\<open>INSERT INTO applications ... ON CONFLICT DO NOTHING\<close>, which names no conflict
  target and so yields to whichever unique constraint the table has; the specification
  gives the table one row per posting, a unique key on the posting id.
\<close>

definition insert_application :: "application \<Rightarrow> state \<Rightarrow> state" where
  "insert_application a s =
     (if list_ex (\<lambda>b. app_job_id b = app_job_id a) (applications s)
      then s
      else s\<lparr>applications := applications s @ [a]\<rparr>)"

text \<open>JavaScript truthiness of an optional string: absent and empty are both falsy.\<close>

definition truthy_string :: "string option \<Rightarrow> bool" where
  "truthy_string v = (case v of None \<Rightarrow> False | Some x \<Rightarrow> x \<noteq> [])"

text \<open>
  \<open>runMaterials s baseHash j reply\<close>: \<open>baseHash\<close> is the first 16 hexadecimal digits of
  the SHA-256 of the base resume, a value of the knowledge base.
\<close>

definition runMaterials :: "state \<Rightarrow> string \<Rightarrow> nat \<Rightarrow> GeneratedMaterials reply \<Rightarrow> outcome" where
  "runMaterials s baseHash j reply =
     (case select_posting s j of
        None \<Rightarrow> Inr (logger (Warn ''[materials] job not found'') s)
      | Some posting \<Rightarrow>
          (let s1 = update_posting j (\<lambda>p. p\<lparr>status := ''Drafting''\<rparr>) s
           in case reply of
                CallThrows \<Rightarrow> Inl (ReasoningError, s1)
              | BadJson \<Rightarrow> Inl (ParseError, s1)
              | Parsed materials \<Rightarrow>
                  (let (rid, s2) =
                         insert_resume_version baseHash (title posting)
                           (nullish (gen_tailoredBullets materials) []) s1;
                       resumeVersionId = Some rid;
                       s3 = insert_application
                              \<lparr>app_job_id = j, app_resume_version_id = resumeVersionId,
                               cover_letter_id =
                                 (if truthy_string (gen_coverLetter materials)
                                  then Some (''cl-'' @ String j) else None),
                               qa_answers_id =
                                 (if qaAnswers materials \<noteq> None
                                  then Some (''qa-'' @ String j) else None)\<rparr> s2;
                       s4 = update_posting j
                              (\<lambda>p. p\<lparr>notes_col :=
                                        Some (gen_coverLetter materials, whyCompany materials,
                                              qaAnswers materials)\<rparr>) s3;
                       s5 = s4\<lparr>complianceQueue := complianceQueue s4 @
                                 [\<lparr>jobId = j, resumeVersionId = resumeVersionId,
                                   coverLetter = gen_coverLetter materials,
                                   tailoredBullets = gen_tailoredBullets materials\<rparr>]\<rparr>
                   in Inr (logger (Info ''[materials] complete - enqueued compliance'') s5))))"

section \<open>Scout\<close>

definition GREENHOUSE_TARGETS :: "(string \<times> string) list" where
  "GREENHOUSE_TARGETS =
     [(''Anthropic'', ''anthropic''), (''OpenAI'', ''openai''), (''Stripe'', ''stripe''),
      (''Snowflake'', ''snowflake''), (''Datadog'', ''datadoghq''), (''Chime'', ''chime''),
      (''Netflix'', ''netflix''), (''NVIDIA'', ''nvidia''), (''Figma'', ''figma''),
      (''Notion'', ''notion''), (''Confluent'', ''confluent''),
      (''HashiCorp'', ''hashicorp'')]"

record GreenhouseJob =
  gh_id :: nat
  gh_title :: string
  gh_location_name :: "string option"
  gh_content :: string
  absolute_url :: string
  updated_at :: "string option"

text \<open>
  What the network does for one board: \<^verbatim>\<open>fetch\<close> rejects (no connection, the 15 s
  timeout) or the body is not JSON; the response is not OK, with its status; or the
  response is OK and its body has or lacks the \<^verbatim>\<open>jobs\<close> field.
\<close>

datatype http_reply = FetchThrows | NonOk nat | OkJson "GreenhouseJob list option"

definition fetchGreenhouseJobs ::
  "http_reply \<Rightarrow> state \<Rightarrow> (error \<times> state) + (GreenhouseJob list \<times> state)" where
  "fetchGreenhouseJobs res s =
     (case res of
        FetchThrows \<Rightarrow> Inl (FetchError, s)
      | NonOk st \<Rightarrow> Inr ([], logger (Warn ''[scout] greenhouse fetch non-ok'') s)
      | OkJson jobs \<Rightarrow> Inr (nullish jobs [], s))"

text \<open>
  The pre-filter
  \<^verbatim>\<open>/intern|new[\s-]?grad|entry[\s-]?level|summer 202/i.test(j.title)\<close>.
  Without the \<^verbatim>\<open>u\<close> flag, ignoring case folds only the ASCII letters onto the
  letters of these patterns; \<^verbatim>\<open>\s\<close> is white space, of which the code units below
  256 are the six ASCII ones and the no-break space.
\<close>

definition lower :: "char \<Rightarrow> char" where
  "lower c =
     (if (65::nat) \<le> of_char c \<and> of_char c \<le> (90::nat)
      then char_of (of_char c + (32::nat)) else c)"

definition is_sep :: "char \<Rightarrow> bool" where
  "is_sep c = (of_char c \<in> {9, 10, 11, 12, 13, 32, 160, 45 :: nat})"

text \<open>\<open>after pat t\<close>: the rest of \<open>t\<close> behind the literal \<open>pat\<close>, if \<open>t\<close> starts with it.\<close>

fun after :: "string \<Rightarrow> string \<Rightarrow> string option" where
  "after [] t = Some t"
| "after (p # ps) [] = None"
| "after (p # ps) (c # cs) = (if lower c = p then after ps cs else None)"

text \<open>\<^verbatim>\<open>[\s-]?\<close> followed by the literal \<open>pat\<close>, greedy first.\<close>

definition after_opt_sep :: "string \<Rightarrow> string \<Rightarrow> bool" where
  "after_opt_sep pat t =
     ((case t of [] \<Rightarrow> False | c # cs \<Rightarrow> is_sep c \<and> after pat cs \<noteq> None) \<or> after pat t \<noteq> None)"

definition matches_here :: "string \<Rightarrow> bool" where
  "matches_here t =
     (after ''intern'' t \<noteq> None \<or>
      (case after ''new'' t of None \<Rightarrow> False | Some r \<Rightarrow> after_opt_sep ''grad'' r) \<or>
      (case after ''entry'' t of None \<Rightarrow> False | Some r \<Rightarrow> after_opt_sep ''level'' r) \<or>
      after ''summer 202'' t \<noteq> None)"

fun relevant_title :: "string \<Rightarrow> bool" where
  "relevant_title [] = False"
| "relevant_title (c # cs) = (matches_here (c # cs) \<or> relevant_title cs)"

text \<open>The reply of the extraction call, read as \<^verbatim>\<open>Record<string, unknown>\<close>.\<close>

record RawExtract =
  raw_level :: "string option"
  raw_remoteMode :: "string option"
  raw_visaSponsorship :: "string option"
  rest :: string

record ExtractedFields =
  ef_level :: string
  ef_remoteMode :: string
  ef_visaSponsorship :: string
  structured :: string

text \<open>\<^verbatim>\<open>(v as string) || "unknown"\<close>: absent and empty both give the default.\<close>

definition or_unknown :: "string option \<Rightarrow> string" where
  "or_unknown v =
     (case v of None \<Rightarrow> ''unknown'' | Some x \<Rightarrow> if x = [] then ''unknown'' else x)"

definition extractStructuredFields :: "RawExtract reply \<Rightarrow> error + ExtractedFields" where
  "extractStructuredFields reply =
     (case reply of
        CallThrows \<Rightarrow> Inl ReasoningError
      | BadJson \<Rightarrow> Inl ParseError
      | Parsed raw \<Rightarrow>
          Inr \<lparr>ef_level = or_unknown (raw_level raw),
               ef_remoteMode = or_unknown (raw_remoteMode raw),
               ef_visaSponsorship = or_unknown (raw_visaSponsorship raw),
               structured = rest raw\<rparr>)"

text \<open>
  Modelled from the spec: the schema of \<^verbatim>\<open>job_postings\<close> is not part of the
  sources. The statement is
  \<^verbatim>\<open>INSERT INTO job_postings ... ON CONFLICT (source, source_job_id) DO NOTHING
  RETURNING id\<close>: it returns the id of the new row, or no row when the key is already
  stored. The columns it does not name take the schema's defaults: the specification has
  a new posting enter as \<open>Discovered\<close>, with no score, reasoning, risks or notes yet.
  The generated key is modelled as a counter; \<^verbatim>\<open>rows[0]?.id\<close> is truthy for every
  returned row.
\<close>

definition insert_posting ::
  "string \<times> string \<Rightarrow> GreenhouseJob \<Rightarrow> ExtractedFields \<Rightarrow> state \<Rightarrow> nat option \<times> state" where
  "insert_posting target gh extracted s =
     (if list_ex (\<lambda>p. source p = ''greenhouse'' \<and> source_job_id p = String (gh_id gh))
           (job_postings s)
      then (None, s)
      else (let new_id = next_posting_id s
            in (Some new_id,
                s\<lparr>job_postings := job_postings s @
                     [\<lparr>posting_id = new_id, source = ''greenhouse'',
                       source_job_id = String (gh_id gh), company = fst target,
                       title = gh_title gh, level = ef_level extracted,
                       location = gh_location_name gh, remote_mode = ef_remoteMode extracted,
                       visa_sponsorship = ef_visaSponsorship extracted,
                       description_raw = gh_content gh,
                       description_structured = structured extracted,
                       apply_url = absolute_url gh, date_posted = updated_at gh,
                       fit_score = None, fit_reasoning = None, risks = None,
                       status = ''Discovered'', notes_col = None\<rparr>],
                  next_posting_id := Suc new_id\<rparr>)))"

text \<open>
  What lies outside the worker during one run: the network's answer for each board, the
  reasoning service's answer for each posting, and whether the store refuses the insert
  of a posting with an error. The store and the broker are otherwise taken to answer.
\<close>

record scout_env =
  http :: "string \<Rightarrow> http_reply"
  extraction :: "GreenhouseJob \<Rightarrow> RawExtract reply"
  insert_throws :: "GreenhouseJob \<Rightarrow> bool"

text \<open>The body of the inner \<^verbatim>\<open>try\<close>, for one posting.\<close>

definition scout_try :: "scout_env \<Rightarrow> string \<times> string \<Rightarrow> GreenhouseJob \<Rightarrow> state \<Rightarrow> outcome" where
  "scout_try env target gh s =
     (case extractStructuredFields (extraction env gh) of
        Inl e \<Rightarrow> Inl (e, s)
      | Inr extracted \<Rightarrow>
          if insert_throws env gh then Inl (InsertError, s)
          else (case insert_posting target gh extracted s of
                  (None, s1) \<Rightarrow> Inr s1
                | (Some new_id, s1) \<Rightarrow>
                    Inr (logger (Info ''[scout] new job - enqueued normalize'')
                          (s1\<lparr>normalizeQueue := normalizeQueue s1 @ [new_id]\<rparr>))))"

text \<open>
  The inner loop: \<^verbatim>\<open>for (const gh of relevant) { try {...} catch {...} }\<close>. The
  counter \<^verbatim>\<open>discovered\<close> only feeds the last log line and is left out.
\<close>

fun scout_postings ::
  "scout_env \<Rightarrow> string \<times> string \<Rightarrow> GreenhouseJob list \<Rightarrow> state \<Rightarrow> outcome" where
  "scout_postings env target [] s = Inr s"
| "scout_postings env target (gh # ghs) s =
     (case scout_try env target gh s of
        Inl (err, s1) \<Rightarrow>
          scout_postings env target ghs (logger (Error ''[scout] failed to process job'') s1)
      | Inr s1 \<Rightarrow> scout_postings env target ghs s1)"

text \<open>The outer loop: \<^verbatim>\<open>for (const target of GREENHOUSE_TARGETS)\<close>.\<close>

fun scout_targets :: "scout_env \<Rightarrow> (string \<times> string) list \<Rightarrow> state \<Rightarrow> outcome" where
  "scout_targets env [] s = Inr s"
| "scout_targets env (target # targets) s =
     (case fetchGreenhouseJobs (http env (snd target)) s of
        Inl (err, s1) \<Rightarrow>
          scout_targets env targets (logger (Error ''[scout] fetch failed, skipping'') s1)
      | Inr (jobs, s1) \<Rightarrow>
          (let relevant = filter (\<lambda>j. relevant_title (gh_title j)) jobs;
               s2 = logger (Info ''[scout] fetched greenhouse'') s1
           in case scout_postings env target relevant s2 of
                Inl (err, s3) \<Rightarrow> Inl (err, s3)
              | Inr s3 \<Rightarrow> scout_targets env targets s3))"

definition runScout :: "scout_env \<Rightarrow> state \<Rightarrow> outcome" where
  "runScout env s =
     (case scout_targets env GREENHOUSE_TARGETS s of
        Inl (err, s1) \<Rightarrow> Inl (err, s1)
      | Inr s1 \<Rightarrow> Inr (logger (Info ''[scout] run complete'') s1))"

section \<open>Keys of the postings table\<close>

text \<open>
  The unique key of a posting, the rows stored under a key, and the way Scout changes the
  store: \<open>grows s s'\<close> holds when \<open>s'\<close> has the postings of \<open>s\<close> followed by new
  ones, the Normalize queue of \<open>s\<close> followed by the ids of the new postings, and unique
  keys if \<open>s\<close> had.
\<close>

definition posting_key :: "posting \<Rightarrow> string \<times> string" where
  "posting_key p = (source p, source_job_id p)"

definition rows_with_key :: "string \<Rightarrow> string \<Rightarrow> state \<Rightarrow> posting list" where
  "rows_with_key src sid s =
     filter (\<lambda>p. source p = src \<and> source_job_id p = sid) (job_postings s)"

definition grows :: "state \<Rightarrow> state \<Rightarrow> bool" where
  "grows s s' =
     (\<exists>new. job_postings s' = job_postings s @ new \<and>
        normalizeQueue s' = normalizeQueue s @ map posting_id new \<and>
        (distinct (map posting_key (job_postings s)) \<longrightarrow>
         distinct (map posting_key (job_postings s'))))"

section \<open>What a worker leaves alone\<close>

text \<open>
  \<open>untouched s s'\<close>: the four tables and the four queues of \<open>s'\<close> are those of \<open>s\<close>;
  only the log may differ.
\<close>

definition untouched :: "state \<Rightarrow> state \<Rightarrow> bool" where
  "untouched s s' =
     (job_postings s' = job_postings s \<and> followups s' = followups s \<and>
      resume_versions s' = resume_versions s \<and> applications s' = applications s \<and>
      normalizeQueue s' = normalizeQueue s \<and> fitScoreQueue s' = fitScoreQueue s \<and>
      materialsQueue s' = materialsQueue s \<and> complianceQueue s' = complianceQueue s)"

section \<open>A sample store\<close>

text \<open>
  One discovered posting in an otherwise empty store, and a Compliance task for it. The
  theorems below are instantiated on this store.
\<close>

definition sample_posting :: posting where
  "sample_posting =
     \<lparr>posting_id = 1, source = ''greenhouse'', source_job_id = ''4242'',
      company = ''Stripe'', title = ''Software Engineering Intern'', level = ''intern'',
      location = Some ''Remote'', remote_mode = ''remote'', visa_sponsorship = ''unknown'',
      description_raw = ''<p>Build things</p>'', description_structured = ''{}'',
      apply_url = ''https://example.org/4242'', date_posted = None,
      fit_score = None, fit_reasoning = None, risks = None,
      status = ''Discovered'', notes_col = None\<rparr>"

definition sample_state :: state where
  "sample_state =
     \<lparr>job_postings = [sample_posting], followups = [], resume_versions = [],
      applications = [], next_posting_id = 2, next_resume_version_id = 1,
      normalizeQueue = [], fitScoreQueue = [], materialsQueue = [], complianceQueue = [],
      logs = []\<rparr>"

definition sample_job :: CompliancePayload where
  "sample_job = \<lparr>jobId = 1, resumeVersionId = None, coverLetter = None, tailoredBullets = None\<rparr>"

text \<open>
  A board's answer with two relevant postings, the first of which fails in extraction, and
  an environment in which one board answers, one is not OK and the others cannot be
  reached. A reply of Materials.
\<close>

definition sample_gh :: GreenhouseJob where
  "sample_gh =
     \<lparr>gh_id = 777, gh_title = ''New Grad Software Engineer'',
      gh_location_name = Some ''Remote'', gh_content = ''<p>Hello</p>'',
      absolute_url = ''https://example.org/777'', updated_at = None\<rparr>"

definition failing_gh :: GreenhouseJob where
  "failing_gh =
     \<lparr>gh_id = 778, gh_title = ''Summer 2026 Research Intern'',
      gh_location_name = None, gh_content = ''<p>Research</p>'',
      absolute_url = ''https://example.org/778'', updated_at = None\<rparr>"

definition sample_raw :: RawExtract where
  "sample_raw =
     \<lparr>raw_level = Some ''newgrad'', raw_remoteMode = None,
      raw_visaSponsorship = Some [], rest = ''{}''\<rparr>"

definition sample_env :: scout_env where
  "sample_env =
     \<lparr>http = (\<lambda>slug. if slug = ''openai'' then OkJson (Some [failing_gh, sample_gh])
                     else if slug = ''stripe'' then NonOk 503 else FetchThrows),
      extraction = (\<lambda>gh. if gh_id gh = 777
                          then Parsed sample_raw else CallThrows),
      insert_throws = (\<lambda>gh. False)\<rparr>"

text \<open>
  The reply \<^verbatim>\<open>{"fitScore": "85"}\<close> of the scoring call: the score is present, a
  string and not a number, and \<^verbatim>\<open>ToNumber\<close> reads it as 85.
\<close>

definition string_score_reply :: FitResult where
  "string_score_reply =
     \<lparr>fitScore = Some (NonNumber (Num 85)), reasoning = None, result_risks = None,
      recommendation = None\<rparr>"

definition sample_materials :: GeneratedMaterials where
  "sample_materials =
     \<lparr>gen_coverLetter = Some ''Dear team'', gen_tailoredBullets = Some [''Built a queue''],
      whyCompany = None, qaAnswers = None\<rparr>"

section \<open>Reading and updating the store\<close>

declare String.simps [simp del]

lemma find_map_update:
  assumes "\<And>p. posting_id (f p) = posting_id p"
  shows "find (\<lambda>p. posting_id p = j) (map (\<lambda>p. if posting_id p = j then f p else p) ps)
         = map_option f (find (\<lambda>p. posting_id p = j) ps)"
  using assms by (induction ps) auto

lemma select_update_posting:
  assumes "\<And>p. posting_id (f p) = posting_id p"
  shows "select_posting (update_posting j f s) j = map_option f (select_posting s j)"
  using find_map_update [OF assms] by (simp add: select_posting_def update_posting_def)

lemma select_posting_cong:
  "job_postings s' = job_postings s \<Longrightarrow> select_posting s' j = select_posting s j"
  by (simp add: select_posting_def)

lemma job_postings_logger [simp]: "job_postings (logger l s) = job_postings s"
  and followups_logger [simp]: "followups (logger l s) = followups s"
  and resume_versions_logger [simp]: "resume_versions (logger l s) = resume_versions s"
  and applications_logger [simp]: "applications (logger l s) = applications s"
  and next_posting_id_logger [simp]: "next_posting_id (logger l s) = next_posting_id s"
  and next_resume_version_id_logger [simp]:
    "next_resume_version_id (logger l s) = next_resume_version_id s"
  and normalizeQueue_logger [simp]: "normalizeQueue (logger l s) = normalizeQueue s"
  and fitScoreQueue_logger [simp]: "fitScoreQueue (logger l s) = fitScoreQueue s"
  and materialsQueue_logger [simp]: "materialsQueue (logger l s) = materialsQueue s"
  and complianceQueue_logger [simp]: "complianceQueue (logger l s) = complianceQueue s"
  and logs_logger [simp]: "logs (logger l s) = logs s @ [l]"
  by (simp_all add: logger_def)

lemma select_posting_logger [simp]: "select_posting (logger l s) j = select_posting s j"
  by (simp add: select_posting_def)

lemma select_posting_frame [simp]:
  "select_posting (s\<lparr>normalizeQueue := nq\<rparr>) j = select_posting s j"
  "select_posting (s\<lparr>fitScoreQueue := fq\<rparr>) j = select_posting s j"
  "select_posting (s\<lparr>materialsQueue := mq\<rparr>) j = select_posting s j"
  "select_posting (s\<lparr>complianceQueue := cq\<rparr>) j = select_posting s j"
  by (simp_all add: select_posting_def)

lemma followups_update_posting [simp]: "followups (update_posting j f s) = followups s"
  by (simp add: update_posting_def)

lemma update_posting_frame [simp]:
  "resume_versions (update_posting j f s) = resume_versions s"
  "applications (update_posting j f s) = applications s"
  "next_posting_id (update_posting j f s) = next_posting_id s"
  "next_resume_version_id (update_posting j f s) = next_resume_version_id s"
  "normalizeQueue (update_posting j f s) = normalizeQueue s"
  "fitScoreQueue (update_posting j f s) = fitScoreQueue s"
  "materialsQueue (update_posting j f s) = materialsQueue s"
  "complianceQueue (update_posting j f s) = complianceQueue s"
  "logs (update_posting j f s) = logs s"
  by (simp_all add: update_posting_def)

lemma job_postings_insert_followup [simp]:
  "job_postings (insert_followup j today s nd) = job_postings s"
  by (simp add: insert_followup_def Let_def)

lemma select_sample: "select_posting sample_state 1 = Some sample_posting"
  by (simp add: select_posting_def sample_state_def sample_posting_def)

section \<open>Compliance: pass determination\<close>

text \<open>
  C1. For a posting that is stored, Compliance resolves, and the outcome is a pass (status
  \<open>ReadyForReview\<close>) exactly when the reply's \<open>pass\<close> is \<open>true\<close> and its flag list
  is empty (an absent list counts as empty, as in the source's \<^verbatim>\<open>result.flags ?? []\<close>).
  Otherwise, in particular for \<open>pass = true\<close> with a flag, the status is set to
  \<open>Drafting\<close> and no follow-up is created.
\<close>

theorem compliance_pass_determination:
  assumes "select_posting s (jobId job) = Some p"
  shows "\<exists>s'. runCompliance s today job (Parsed result) = Inr s' \<and>
           (if pass result = Some True \<and> nullish (flags result) [] = []
            then map_option status (select_posting s' (jobId job)) = Some ''ReadyForReview''
            else map_option status (select_posting s' (jobId job)) = Some ''Drafting'' \<and>
                 followups s' = followups s)"
proof (cases "compliance_passed result")
  case True
  then have c: "pass result = Some True \<and> nullish (flags result) [] = []"
    by (simp add: compliance_passed_def nullish_def)
  let ?s1 = "update_posting (jobId job) (\<lambda>p. p\<lparr>status := ''ReadyForReview''\<rparr>) s"
  let ?s2 = "foldl (insert_followup (jobId job) today) ?s1 [(1, 7), (2, 14)]"
  have "job_postings ?s2 = job_postings ?s1"
    by simp
  then have "select_posting ?s2 (jobId job) = select_posting ?s1 (jobId job)"
    by (rule select_posting_cong)
  also have "\<dots> = Some (p\<lparr>status := ''ReadyForReview''\<rparr>)"
    using assms by (simp add: select_update_posting)
  finally have "select_posting ?s2 (jobId job) = Some (p\<lparr>status := ''ReadyForReview''\<rparr>)" .
  with True c show ?thesis
    by (simp add: runCompliance_def)
next
  case False
  then have c: "\<not> (pass result = Some True \<and> nullish (flags result) [] = [])"
    by (simp add: compliance_passed_def nullish_def)
  from False c assms show ?thesis
    by (simp add: runCompliance_def select_update_posting)
qed

theorem compliance_pass_determination_witness:
  "select_posting sample_state (jobId sample_job) = Some sample_posting \<and>
   (\<exists>s'. runCompliance sample_state 0 sample_job
            (Parsed \<lparr>pass = Some True,
                     flags = Some [\<lparr>excerpt = ''40%'', issue = ''unverified metric''\<rparr>],
                     summary = None\<rparr>) = Inr s' \<and>
         map_option status (select_posting s' (jobId sample_job)) = Some ''Drafting'' \<and>
         followups s' = followups sample_state)"
proof -
  have h: "select_posting sample_state (jobId sample_job) = Some sample_posting"
    using select_sample by (simp add: sample_job_def)
  from compliance_pass_determination [OF h, of 0
      "\<lparr>pass = Some True,
        flags = Some [\<lparr>excerpt = ''40%'', issue = ''unverified metric''\<rparr>],
        summary = None\<rparr>"]
  show ?thesis using h by (simp add: nullish_def)
qed

section \<open>Compliance: follow-ups\<close>

lemma iso_date_offset: "iso_date (today + int d * 86400000) = iso_date today + int d"
  by (simp add: iso_date_def)

lemma followups_insert_followup:
  "followups (insert_followup j today s (n, d)) =
     (if list_ex (\<lambda>f. job_id f = j \<and> followup_number f = n) (followups s)
      then followups s
      else followups s @ [\<lparr>job_id = j, followup_number = n,
                           scheduled_for = iso_date today + int d,
                           followup_status = ''pending''\<rparr>])"
  by (simp add: insert_followup_def Let_def iso_date_offset)

lemma no_rows_no_key:
  assumes "filter (\<lambda>f. job_id f = j) fs = []"
  shows "\<not> list_ex (\<lambda>f. job_id f = j \<and> followup_number f = n) fs"
  using assms by (induction fs) (auto split: if_splits)

lemma followups_after_pass:
  "followups (foldl (insert_followup j today) s [(1, 7), (2, 14)]) =
     followups (insert_followup j today (insert_followup j today s (1, 7)) (2, 14))"
  by simp

text \<open>
  C4. For a posting with no follow-up yet, a passing Compliance execution at time \<open>t1\<close>
  adds exactly the follow-ups numbered 1 and 2, pending, dated 7 and 14 days after the
  day of \<open>t1\<close>. A second passing execution for the same posting, at any time and with
  any payload and reply, leaves the table as it is: the posting has two follow-ups, not
  four.
\<close>

theorem followups_created_once:
  assumes fresh: "filter (\<lambda>f. job_id f = jobId job) (followups s) = []"
    and p1: "pass r1 = Some True" "nullish (flags r1) [] = []"
    and p2: "pass r2 = Some True" "nullish (flags r2) [] = []"
    and same: "jobId job2 = jobId job"
  shows "\<exists>s1 s2. runCompliance s t1 job (Parsed r1) = Inr s1 \<and>
           runCompliance s1 t2 job2 (Parsed r2) = Inr s2 \<and>
           followups s1 = followups s @
             [\<lparr>job_id = jobId job, followup_number = 1,
               scheduled_for = iso_date t1 + 7, followup_status = ''pending''\<rparr>,
              \<lparr>job_id = jobId job, followup_number = 2,
               scheduled_for = iso_date t1 + 14, followup_status = ''pending''\<rparr>] \<and>
           followups s2 = followups s1 \<and>
           length (filter (\<lambda>f. job_id f = jobId job) (followups s2)) = 2"
proof -
  let ?j = "jobId job"
  let ?r1 = "\<lparr>job_id = ?j, followup_number = 1,
               scheduled_for = iso_date t1 + 7, followup_status = ''pending''\<rparr>"
  let ?r2 = "\<lparr>job_id = ?j, followup_number = 2,
               scheduled_for = iso_date t1 + 14, followup_status = ''pending''\<rparr>"
  have c1: "compliance_passed r1" and c2: "compliance_passed r2"
    using p1 p2 by (simp_all add: compliance_passed_def nullish_def)
  obtain s1 where s1: "runCompliance s t1 job (Parsed r1) = Inr s1"
    and f1: "followups s1 =
       followups (foldl (insert_followup ?j t1)
         (update_posting ?j (\<lambda>p. p\<lparr>status := ''ReadyForReview''\<rparr>) s) [(1, 7), (2, 14)])"
    using c1 by (simp add: runCompliance_def)
  obtain s2 where s2: "runCompliance s1 t2 job2 (Parsed r2) = Inr s2"
    and f2: "followups s2 =
       followups (foldl (insert_followup ?j t2)
         (update_posting ?j (\<lambda>p. p\<lparr>status := ''ReadyForReview''\<rparr>) s1) [(1, 7), (2, 14)])"
    using c2 same by (simp add: runCompliance_def)
  have none: "\<And>n. \<not> list_ex (\<lambda>f. job_id f = ?j \<and> followup_number f = n) (followups s)"
    using fresh by (rule no_rows_no_key)
  have first: "followups s1 = followups s @ [?r1, ?r2]"
    unfolding f1 followups_after_pass by (simp add: followups_insert_followup none)
  have second: "followups s2 = followups s1"
    unfolding f2 followups_after_pass by (simp add: followups_insert_followup first)
  have "length (filter (\<lambda>f. job_id f = ?j) (followups s2)) = 2"
    unfolding second first using fresh by simp
  with s1 s2 first second show ?thesis
    by blast
qed

theorem followups_created_once_witness:
  "filter (\<lambda>f. job_id f = jobId sample_job) (followups sample_state) = [] \<and>
   (\<exists>s1 s2.
      runCompliance sample_state 1000 sample_job
        (Parsed \<lparr>pass = Some True, flags = Some [], summary = None\<rparr>) = Inr s1 \<and>
      runCompliance s1 259200000 sample_job
        (Parsed \<lparr>pass = Some True, flags = None, summary = None\<rparr>) = Inr s2 \<and>
      followups s1 =
        [\<lparr>job_id = 1, followup_number = 1, scheduled_for = 7, followup_status = ''pending''\<rparr>,
         \<lparr>job_id = 1, followup_number = 2, scheduled_for = 14, followup_status = ''pending''\<rparr>] \<and>
      followups s2 = followups s1 \<and>
      length (filter (\<lambda>f. job_id f = jobId sample_job) (followups s2)) = 2)"
proof -
  have h: "filter (\<lambda>f. job_id f = jobId sample_job) (followups sample_state) = []"
    by (simp add: sample_state_def)
  have e: "followups sample_state = []" "jobId sample_job = 1" "iso_date 1000 = 0"
    by (simp_all add: sample_state_def sample_job_def iso_date_def)
  from followups_created_once [OF h, of
      "\<lparr>pass = Some True, flags = Some [], summary = None\<rparr>"
      "\<lparr>pass = Some True, flags = None, summary = None\<rparr>" sample_job 1000 259200000]
  show ?thesis using h by (simp add: nullish_def e)
qed

section \<open>FitScore: clamp, threshold and default\<close>

lemma clamp_spec_range: "0 \<le> clamp_spec x \<and> clamp_spec x \<le> 100"
  by (simp add: clamp_spec_def)

lemma clamp_number_eq: "Math_max (Num 0) (Math_min (Num 100) n) = clamp_number n"
  by (cases n) (simp_all add: Math_max_def Math_min_def clamp_spec_def)

text \<open>
  C2. For a posting that is stored, FitScore resolves and persists the clamped score. If
  that score is at least 60 the status becomes \<open>Shortlisted\<close> and exactly one Materials
  task, for this posting, is added; otherwise (below 60, or no number at all) the status
  becomes \<open>Archived\<close> and no queue changes. The score is the reply's value, 0 when the
  reply has none, read as a number.
\<close>

theorem fit_threshold_branch:
  assumes "select_posting s j = Some p"
  shows "\<exists>s' p'. runFitScore s j (Parsed result) = Inr s' \<and>
           select_posting s' j = Some p' \<and>
           fit_score p' =
             Some (clamp_number (ToNumber (nullish (fitScore result) (JNumber 0)))) \<and>
           (if number_le (Num 60)
                 (clamp_number (ToNumber (nullish (fitScore result) (JNumber 0))))
            then status p' = ''Shortlisted'' \<and> materialsQueue s' = materialsQueue s @ [j]
            else status p' = ''Archived'' \<and> materialsQueue s' = materialsQueue s) \<and>
           normalizeQueue s' = normalizeQueue s \<and> fitScoreQueue s' = fitScoreQueue s \<and>
           complianceQueue s' = complianceQueue s"
  using assms
  by (simp add: runFitScore_def Let_def FIT_THRESHOLD_def clamp_number_eq select_update_posting)

theorem fit_threshold_branch_witness:
  "select_posting sample_state 1 = Some sample_posting \<and>
   (\<exists>s' p'. runFitScore sample_state 1
        (Parsed \<lparr>fitScore = Some (JNumber 60), reasoning = None, result_risks = None,
                 recommendation = None\<rparr>) = Inr s' \<and>
      select_posting s' 1 = Some p' \<and> status p' = ''Shortlisted'' \<and>
      materialsQueue s' = [1]) \<and>
   (\<exists>s' p'. runFitScore sample_state 1
        (Parsed \<lparr>fitScore = Some (JNumber 59), reasoning = None, result_risks = None,
                 recommendation = None\<rparr>) = Inr s' \<and>
      select_posting s' 1 = Some p' \<and> status p' = ''Archived'' \<and>
      materialsQueue s' = [])"
proof -
  have q: "materialsQueue sample_state = []"
    by (simp add: sample_state_def)
  from fit_threshold_branch [OF select_sample, of
      "\<lparr>fitScore = Some (JNumber 60), reasoning = None, result_risks = None,
        recommendation = None\<rparr>"]
    fit_threshold_branch [OF select_sample, of
      "\<lparr>fitScore = Some (JNumber 59), reasoning = None, result_risks = None,
        recommendation = None\<rparr>"]
  show ?thesis using select_sample
    by (simp add: nullish_def clamp_spec_def q) blast
qed

text \<open>
  C3. For a posting that is stored and a reply with a numeric score \<open>x\<close>, the persisted
  score is \<open>x\<close> clamped to the closed interval from 0 to 100, and the status is decided
  by comparing that clamped value with 60. A raw 150 persists as 100, a raw -5 as 0.
\<close>

theorem fit_score_clamped:
  assumes "select_posting s j = Some p" and "fitScore result = Some (JNumber x)"
  shows "\<exists>s' p'. runFitScore s j (Parsed result) = Inr s' \<and>
           select_posting s' j = Some p' \<and>
           fit_score p' = Some (Num (clamp_spec x)) \<and>
           0 \<le> clamp_spec x \<and> clamp_spec x \<le> 100 \<and>
           status p' = (if 60 \<le> clamp_spec x then ''Shortlisted'' else ''Archived'')"
  using assms clamp_spec_range [of x]
  by (simp add: runFitScore_def Let_def FIT_THRESHOLD_def clamp_number_eq select_update_posting
      nullish_def)

theorem fit_score_clamped_witness:
  "select_posting sample_state 1 = Some sample_posting \<and>
   (\<exists>s' p'. runFitScore sample_state 1
        (Parsed \<lparr>fitScore = Some (JNumber 150), reasoning = None, result_risks = None,
                 recommendation = None\<rparr>) = Inr s' \<and>
      select_posting s' 1 = Some p' \<and> fit_score p' = Some (Num 100)) \<and>
   (\<exists>s' p'. runFitScore sample_state 1
        (Parsed \<lparr>fitScore = Some (JNumber (- 5)), reasoning = None, result_risks = None,
                 recommendation = None\<rparr>) = Inr s' \<and>
      select_posting s' 1 = Some p' \<and> fit_score p' = Some (Num 0))"
proof -
  from fit_score_clamped [OF select_sample, of
      "\<lparr>fitScore = Some (JNumber 150), reasoning = None, result_risks = None,
        recommendation = None\<rparr>"
      150]
    fit_score_clamped [OF select_sample, of
      "\<lparr>fitScore = Some (JNumber (- 5)), reasoning = None, result_risks = None,
        recommendation = None\<rparr>"
      "- 5"]
  show ?thesis using select_sample
    by (simp add: clamp_spec_def) blast
qed

text \<open>
  C9, as amended. For a posting that is stored and a reply whose score is missing or
  null, FitScore resolves (the task is not failed), persists the score 0 and the status
  \<open>Archived\<close>, and adds no task to any queue.
\<close>

theorem fit_score_missing_defaults:
  assumes "select_posting s j = Some p" and "fitScore result = None"
  shows "\<exists>s' p'. runFitScore s j (Parsed result) = Inr s' \<and>
           select_posting s' j = Some p' \<and>
           fit_score p' = Some (Num 0) \<and> status p' = ''Archived'' \<and>
           normalizeQueue s' = normalizeQueue s \<and> fitScoreQueue s' = fitScoreQueue s \<and>
           materialsQueue s' = materialsQueue s \<and> complianceQueue s' = complianceQueue s"
  using assms
  by (simp add: runFitScore_def Let_def FIT_THRESHOLD_def select_update_posting nullish_def
      Math_max_def Math_min_def)

theorem fit_score_missing_defaults_witness:
  "select_posting sample_state 1 = Some sample_posting \<and>
   (\<exists>s' p'. runFitScore sample_state 1
        (Parsed \<lparr>fitScore = None, reasoning = Some [''no score given''],
                 result_risks = None, recommendation = Some ''shortlist''\<rparr>) = Inr s' \<and>
      select_posting s' 1 = Some p' \<and> fit_score p' = Some (Num 0) \<and>
      status p' = ''Archived'' \<and> materialsQueue s' = [])"
proof -
  have q: "materialsQueue sample_state = []"
    by (simp add: sample_state_def)
  from fit_score_missing_defaults [OF select_sample, of
      "\<lparr>fitScore = None, reasoning = Some [''no score given''],
        result_risks = None, recommendation = Some ''shortlist''\<rparr>"]
  show ?thesis using select_sample
    by (simp add: q) blast
qed

text \<open>
  The claim as first stated spoke of every reply that lacks a numeric score. It fails
  for a score that is present and not a number: the reply \<^verbatim>\<open>{"fitScore": "85"}\<close>
  has no numeric score, yet \<^verbatim>\<open>"85" ?? 0\<close> is \<^verbatim>\<open>"85"\<close>, \<^verbatim>\<open>Math.min\<close> reads
  it as 85, and FitScore resolves with the score 85 persisted, the status
  \<open>Shortlisted\<close> and a Materials task added.
\<close>

theorem fit_score_string_counterexample:
  "\<not> isl (runFitScore sample_state 1 (Parsed string_score_reply)) \<and>
   map_option fit_score
     (select_posting (projr (runFitScore sample_state 1 (Parsed string_score_reply))) 1)
     = Some (Some (Num 85)) \<and>
   map_option status
     (select_posting (projr (runFitScore sample_state 1 (Parsed string_score_reply))) 1)
     = Some ''Shortlisted'' \<and>
   materialsQueue (projr (runFitScore sample_state 1 (Parsed string_score_reply))) = [1]"
proof -
  let ?s = "logger (Info ''[fit-score] shortlisted - enqueued materials'')
     ((logger (Info ''[fit-score] complete'')
        (update_posting 1
           (\<lambda>p. p\<lparr>fit_score := Some (Num 85), fit_reasoning := Some [],
                  risks := Some [], status := ''Shortlisted''\<rparr>) sample_state))
      \<lparr>materialsQueue := [1]\<rparr>)"
  have run: "runFitScore sample_state 1 (Parsed string_score_reply) = Inr ?s"
    using select_sample
    by (simp add: runFitScore_def Let_def FIT_THRESHOLD_def string_score_reply_def nullish_def
        Math_max_def Math_min_def sample_state_def update_posting_def logger_def)
  have sel: "select_posting ?s 1 =
      Some (sample_posting\<lparr>fit_score := Some (Num 85), fit_reasoning := Some [],
                           risks := Some [], status := ''Shortlisted''\<rparr>)"
    using select_sample by (simp add: select_update_posting)
  show ?thesis
    unfolding run using sel by simp
qed

section \<open>Normalize: coalesce\<close>

text \<open>
  C6. For a posting that is stored, Normalize resolves, and each of the five columns
  title, level, remote mode, visa sponsorship and location holds the reply's value when
  the reply supplies one, and its previous value when the reply's field is absent or
  null.
\<close>

theorem normalize_coalesce:
  assumes "select_posting s j = Some p"
  shows "\<exists>s' p'. runNormalize s j (Parsed n) = Inr s' \<and>
           select_posting s' j = Some p' \<and>
           title p' = (case normalizedTitle n of None \<Rightarrow> title p | Some v \<Rightarrow> v) \<and>
           level p' = (case normalized_level n of None \<Rightarrow> level p | Some v \<Rightarrow> v) \<and>
           remote_mode p' =
             (case normalized_remoteMode n of None \<Rightarrow> remote_mode p | Some v \<Rightarrow> v) \<and>
           visa_sponsorship p' =
             (case normalized_visaSponsorship n of None \<Rightarrow> visa_sponsorship p | Some v \<Rightarrow> v) \<and>
           location p' =
             (case normalizedLocation n of None \<Rightarrow> location p | Some v \<Rightarrow> Some v)"
proof -
  let ?f = "\<lambda>p. p\<lparr>title := COALESCE (normalizedTitle n) (title p),
                  level := COALESCE (normalized_level n) (level p),
                  remote_mode := COALESCE (normalized_remoteMode n) (remote_mode p),
                  visa_sponsorship :=
                    COALESCE (normalized_visaSponsorship n) (visa_sponsorship p),
                  location := COALESCE_nullable (normalizedLocation n) (location p)\<rparr>"
  have "select_posting (update_posting j ?f s) j = Some (?f p)"
    using assms by (simp add: select_update_posting)
  then show ?thesis
    using assms
    by (simp add: runNormalize_def Let_def select_posting_def COALESCE_def COALESCE_nullable_def)
qed

theorem normalize_coalesce_witness:
  "select_posting sample_state 1 = Some sample_posting \<and>
   (\<exists>s' p'. runNormalize sample_state 1
        (Parsed \<lparr>normalizedTitle = Some ''SWE Intern'', normalized_level = None,
                 normalized_remoteMode = None, normalized_visaSponsorship = Some ''no'',
                 normalizedLocation = None\<rparr>) = Inr s' \<and>
      select_posting s' 1 = Some p' \<and>
      title p' = ''SWE Intern'' \<and> level p' = ''intern'' \<and> remote_mode p' = ''remote'' \<and>
      visa_sponsorship p' = ''no'' \<and> location p' = Some ''Remote'')"
proof -
  from normalize_coalesce [OF select_sample, of
      "\<lparr>normalizedTitle = Some ''SWE Intern'', normalized_level = None,
        normalized_remoteMode = None, normalized_visaSponsorship = Some ''no'',
        normalizedLocation = None\<rparr>"]
  show ?thesis using select_sample
    by (simp add: sample_posting_def)
qed

section \<open>Missing records\<close>

text \<open>
  C7. When the posting id does not resolve to a row, Normalize, FitScore and Materials
  each resolve, whatever the reasoning service would have answered, leaving every table
  and every queue as it was and writing one warning to the log.
\<close>

theorem missing_record_returns:
  assumes "select_posting s j = None"
  shows "(\<exists>s'. runNormalize s j nreply = Inr s' \<and> untouched s s' \<and>
                logs s' = logs s @ [Warn ''[normalize] job not found'']) \<and>
         (\<exists>s'. runFitScore s j freply = Inr s' \<and> untouched s s' \<and>
                logs s' = logs s @ [Warn ''[fit-score] job not found'']) \<and>
         (\<exists>s'. runMaterials s baseHash j mreply = Inr s' \<and> untouched s s' \<and>
                logs s' = logs s @ [Warn ''[materials] job not found''])"
  using assms by (simp add: runNormalize_def runFitScore_def runMaterials_def untouched_def)

theorem missing_record_returns_witness:
  "select_posting sample_state 7 = None \<and>
   (\<exists>s'. runNormalize sample_state 7 CallThrows = Inr s' \<and> untouched sample_state s') \<and>
   (\<exists>s'. runFitScore sample_state 7 BadJson = Inr s' \<and> untouched sample_state s') \<and>
   (\<exists>s'. runMaterials sample_state ''0123456789abcdef'' 7
            (Parsed \<lparr>gen_coverLetter = None, gen_tailoredBullets = None, whyCompany = None,
                     qaAnswers = None\<rparr>) = Inr s' \<and> untouched sample_state s')"
proof -
  have h: "select_posting sample_state 7 = None"
    by (simp add: select_posting_def sample_state_def sample_posting_def)
  from missing_record_returns [OF h, of CallThrows BadJson "''0123456789abcdef''"
      "Parsed \<lparr>gen_coverLetter = None, gen_tailoredBullets = None, whyCompany = None,
               qaAnswers = None\<rparr>"]
  show ?thesis using h by blast
qed

section \<open>Materials: redelivery\<close>

lemma select_posting_insert_application [simp]:
  "select_posting (insert_application a s) j = select_posting s j"
  by (simp add: insert_application_def select_posting_def)

lemma select_posting_insert_resume_version [simp]:
  "select_posting (snd (insert_resume_version h r b s)) j = select_posting s j"
  by (simp add: insert_resume_version_def select_posting_def Let_def)

lemma not_list_ex_filter: "\<not> list_ex P xs \<Longrightarrow> filter P xs = []"
  by (induction xs) auto

text \<open>One execution of Materials on a stored posting, table by table.\<close>

lemma runMaterials_parsed:
  assumes sel: "select_posting s j = Some p"
  shows "\<exists>s'. runMaterials s h j (Parsed m) = Inr s' \<and>
           resume_versions s' = resume_versions s @
             [\<lparr>resume_version_id = next_resume_version_id s, base_resume_hash = h,
               target_role = title p,
               tailored_bullets = nullish (gen_tailoredBullets m) []\<rparr>] \<and>
           next_resume_version_id s' = Suc (next_resume_version_id s) \<and>
           applications s' =
             (if list_ex (\<lambda>b. app_job_id b = j) (applications s) then applications s
              else applications s @
                [\<lparr>app_job_id = j, app_resume_version_id = Some (next_resume_version_id s),
                  cover_letter_id =
                    (if truthy_string (gen_coverLetter m) then Some (''cl-'' @ String j)
                     else None),
                  qa_answers_id =
                    (if qaAnswers m \<noteq> None then Some (''qa-'' @ String j) else None)\<rparr>]) \<and>
           select_posting s' j =
             Some (p\<lparr>status := ''Drafting'',
                     notes_col := Some (gen_coverLetter m, whyCompany m, qaAnswers m)\<rparr>) \<and>
           complianceQueue s' = complianceQueue s @
             [\<lparr>jobId = j, resumeVersionId = Some (next_resume_version_id s),
               coverLetter = gen_coverLetter m, tailoredBullets = gen_tailoredBullets m\<rparr>]"
proof -
  define s1 where "s1 = update_posting j (\<lambda>p. p\<lparr>status := ''Drafting''\<rparr>) s"
  define s2 where
    "s2 = snd (insert_resume_version h (title p) (nullish (gen_tailoredBullets m) []) s1)"
  define a where
    "a = \<lparr>app_job_id = j, app_resume_version_id = Some (next_resume_version_id s),
          cover_letter_id =
            (if truthy_string (gen_coverLetter m) then Some (''cl-'' @ String j) else None),
          qa_answers_id =
            (if qaAnswers m \<noteq> None then Some (''qa-'' @ String j) else None)\<rparr>"
  define s3 where "s3 = insert_application a s2"
  define s4 where
    "s4 = update_posting j
            (\<lambda>p. p\<lparr>notes_col := Some (gen_coverLetter m, whyCompany m, qaAnswers m)\<rparr>) s3"
  define s5 where
    "s5 = s4\<lparr>complianceQueue := complianceQueue s4 @
             [\<lparr>jobId = j, resumeVersionId = Some (next_resume_version_id s),
               coverLetter = gen_coverLetter m, tailoredBullets = gen_tailoredBullets m\<rparr>]\<rparr>"
  have fst_ins:
    "fst (insert_resume_version h (title p) (nullish (gen_tailoredBullets m) []) s1)
       = next_resume_version_id s"
    by (simp add: insert_resume_version_def Let_def s1_def)
  have run: "runMaterials s h j (Parsed m) =
      Inr (logger (Info ''[materials] complete - enqueued compliance'') s5)"
    using sel fst_ins
    by (simp add: runMaterials_def Let_def split_def s1_def s2_def a_def s3_def s4_def s5_def)
  have rv2: "resume_versions s2 = resume_versions s @
             [\<lparr>resume_version_id = next_resume_version_id s, base_resume_hash = h,
               target_role = title p,
               tailored_bullets = nullish (gen_tailoredBullets m) []\<rparr>]"
    and nx2: "next_resume_version_id s2 = Suc (next_resume_version_id s)"
    and ap2: "applications s2 = applications s"
    and cq2: "complianceQueue s2 = complianceQueue s"
    by (simp_all add: s2_def s1_def insert_resume_version_def Let_def)
  have rv3: "resume_versions s3 = resume_versions s2"
    and nx3: "next_resume_version_id s3 = next_resume_version_id s2"
    and cq3: "complianceQueue s3 = complianceQueue s2"
    and ap3: "applications s3 =
       (if list_ex (\<lambda>b. app_job_id b = j) (applications s2) then applications s2
        else applications s2 @ [a])"
    by (simp_all add: s3_def insert_application_def a_def)
  have sel1: "select_posting s1 j = Some (p\<lparr>status := ''Drafting''\<rparr>)"
    using sel by (simp add: s1_def select_update_posting)
  have sel3: "select_posting s3 j = Some (p\<lparr>status := ''Drafting''\<rparr>)"
    using sel1 by (simp add: s3_def s2_def)
  have sel4: "select_posting s4 j =
      Some (p\<lparr>status := ''Drafting'',
              notes_col := Some (gen_coverLetter m, whyCompany m, qaAnswers m)\<rparr>)"
    using sel3 by (simp add: s4_def select_update_posting)
  show ?thesis
    unfolding run using sel4 rv2 nx2 ap2 cq2 rv3 nx3 cq3 ap3
    by (simp add: s5_def s4_def a_def)
qed

text \<open>
  C10. For a stored posting with no application yet, two executions of Materials (the
  task delivered twice, with any replies) both resolve and each adds a resume version:
  the table gains two rows with consecutive keys. The applications table gains one row
  for the posting, and it refers to the resume version of the first execution.
\<close>

theorem materials_redelivery:
  assumes sel: "select_posting s j = Some p"
    and fresh: "\<not> list_ex (\<lambda>a. app_job_id a = j) (applications s)"
  shows "\<exists>s1 s2. runMaterials s h1 j (Parsed m1) = Inr s1 \<and>
           runMaterials s1 h2 j (Parsed m2) = Inr s2 \<and>
           resume_versions s2 = resume_versions s @
             [\<lparr>resume_version_id = next_resume_version_id s, base_resume_hash = h1,
               target_role = title p,
               tailored_bullets = nullish (gen_tailoredBullets m1) []\<rparr>,
              \<lparr>resume_version_id = Suc (next_resume_version_id s), base_resume_hash = h2,
               target_role = title p,
               tailored_bullets = nullish (gen_tailoredBullets m2) []\<rparr>] \<and>
           filter (\<lambda>a. app_job_id a = j) (applications s2) =
             [\<lparr>app_job_id = j, app_resume_version_id = Some (next_resume_version_id s),
               cover_letter_id =
                 (if truthy_string (gen_coverLetter m1) then Some (''cl-'' @ String j)
                  else None),
               qa_answers_id =
                 (if qaAnswers m1 \<noteq> None then Some (''qa-'' @ String j) else None)\<rparr>]"
proof -
  from runMaterials_parsed [OF sel, of h1 m1] obtain s1 where
    r1: "runMaterials s h1 j (Parsed m1) = Inr s1"
    and rv1: "resume_versions s1 = resume_versions s @
             [\<lparr>resume_version_id = next_resume_version_id s, base_resume_hash = h1,
               target_role = title p,
               tailored_bullets = nullish (gen_tailoredBullets m1) []\<rparr>]"
    and nx1: "next_resume_version_id s1 = Suc (next_resume_version_id s)"
    and ap1: "applications s1 = applications s @
                [\<lparr>app_job_id = j, app_resume_version_id = Some (next_resume_version_id s),
                  cover_letter_id =
                    (if truthy_string (gen_coverLetter m1) then Some (''cl-'' @ String j)
                     else None),
                  qa_answers_id =
                    (if qaAnswers m1 \<noteq> None then Some (''qa-'' @ String j) else None)\<rparr>]"
    and sel1: "select_posting s1 j =
             Some (p\<lparr>status := ''Drafting'',
                     notes_col := Some (gen_coverLetter m1, whyCompany m1, qaAnswers m1)\<rparr>)"
    using fresh by auto
  from runMaterials_parsed [OF sel1, of h2 m2] obtain s2 where
    r2: "runMaterials s1 h2 j (Parsed m2) = Inr s2"
    and rv2: "resume_versions s2 = resume_versions s1 @
             [\<lparr>resume_version_id = next_resume_version_id s1, base_resume_hash = h2,
               target_role = title p,
               tailored_bullets = nullish (gen_tailoredBullets m2) []\<rparr>]"
    and ap2: "applications s2 = applications s1"
    by (auto simp: ap1)
  have "filter (\<lambda>a. app_job_id a = j) (applications s) = []"
    using fresh by (rule not_list_ex_filter)
  then show ?thesis
    using r1 r2 by (simp add: rv2 rv1 nx1 ap2 ap1)
qed

theorem materials_redelivery_witness:
  "select_posting sample_state 1 = Some sample_posting \<and>
   \<not> list_ex (\<lambda>a. app_job_id a = 1) (applications sample_state) \<and>
   (\<exists>s1 s2.
      runMaterials sample_state ''0123456789abcdef'' 1 (Parsed sample_materials) = Inr s1 \<and>
      runMaterials s1 ''0123456789abcdef'' 1 (Parsed sample_materials) = Inr s2 \<and>
      map resume_version_id (resume_versions s2) = [1, 2] \<and>
      filter (\<lambda>a. app_job_id a = 1) (applications s2) =
        [\<lparr>app_job_id = 1, app_resume_version_id = Some 1,
          cover_letter_id = Some (''cl-'' @ String 1), qa_answers_id = None\<rparr>])"
proof -
  have fresh: "\<not> list_ex (\<lambda>a. app_job_id a = 1) (applications sample_state)"
    by (simp add: sample_state_def)
  have e: "resume_versions sample_state = []" "next_resume_version_id sample_state = 1"
    by (simp_all add: sample_state_def)
  from materials_redelivery [OF select_sample fresh, of "''0123456789abcdef''" sample_materials
      "''0123456789abcdef''" sample_materials]
  show ?thesis
    using select_sample fresh
    by (auto simp: e sample_materials_def truthy_string_def)
qed

section \<open>Scout: one posting\<close>

lemma list_ex_filter: "list_ex P xs \<longleftrightarrow> filter P xs \<noteq> []"
  by (induction xs) auto

lemma stored_iff:
  "list_ex (\<lambda>p. source p = src \<and> source_job_id p = sid) (job_postings s)
     \<longleftrightarrow> rows_with_key src sid s \<noteq> []"
  by (simp add: rows_with_key_def list_ex_filter)

lemma distinct_key_filter:
  "distinct (map f xs) \<Longrightarrow> length (filter (\<lambda>x. f x = k) xs) \<le> 1"
proof (induction xs)
  case Nil
  then show ?case by simp
next
  case (Cons x xs)
  show ?case
  proof (cases "f x = k")
    case True
    with Cons.prems have "k \<notin> f ` set xs" by auto
    then have "filter (\<lambda>x. f x = k) xs = []"
      by (auto simp: filter_empty_conv)
    with True show ?thesis by simp
  next
    case False
    with Cons show ?thesis by simp
  qed
qed

lemma rows_with_key_unique:
  assumes "distinct (map posting_key (job_postings s))"
  shows "length (rows_with_key src sid s) \<le> 1"
  using distinct_key_filter [OF assms, of "(src, sid)"]
  by (simp add: rows_with_key_def posting_key_def)

lemma grows_refl: "grows s s"
  by (simp add: grows_def)

lemma grows_trans:
  assumes "grows s s1" and "grows s1 s2"
  shows "grows s s2"
proof -
  from assms(1) obtain n1 where
    a: "job_postings s1 = job_postings s @ n1"
       "normalizeQueue s1 = normalizeQueue s @ map posting_id n1"
       "distinct (map posting_key (job_postings s)) \<longrightarrow>
        distinct (map posting_key (job_postings s1))"
    unfolding grows_def by blast
  from assms(2) obtain n2 where
    b: "job_postings s2 = job_postings s1 @ n2"
       "normalizeQueue s2 = normalizeQueue s1 @ map posting_id n2"
       "distinct (map posting_key (job_postings s1)) \<longrightarrow>
        distinct (map posting_key (job_postings s2))"
    unfolding grows_def by blast
  have "job_postings s2 = job_postings s @ (n1 @ n2)"
    and "normalizeQueue s2 = normalizeQueue s @ map posting_id (n1 @ n2)"
    using a(1,2) b(1,2) by simp_all
  moreover have "distinct (map posting_key (job_postings s)) \<longrightarrow>
        distinct (map posting_key (job_postings s2))"
    using a(3) b(3) by blast
  ultimately show ?thesis
    unfolding grows_def by blast
qed

lemma grows_logger: "grows s s' \<Longrightarrow> grows s (logger l s')"
  by (simp add: grows_def)

lemma grows_stored:
  assumes "grows s s'" and "rows_with_key src sid s \<noteq> []"
  shows "rows_with_key src sid s' \<noteq> []"
  using assms by (auto simp: grows_def rows_with_key_def)

text \<open>What the insert does, in both cases.\<close>

lemma insert_posting_conflict:
  assumes "rows_with_key ''greenhouse'' (String (gh_id gh)) s \<noteq> []"
  shows "insert_posting target gh ex s = (None, s)"
  using assms by (simp add: insert_posting_def stored_iff)

lemma insert_posting_new:
  assumes "rows_with_key ''greenhouse'' (String (gh_id gh)) s = []"
  shows "\<exists>row s'. insert_posting target gh ex s = (Some (posting_id row), s') \<and>
           job_postings s' = job_postings s @ [row] \<and>
           normalizeQueue s' = normalizeQueue s \<and>
           posting_key row = (''greenhouse'', String (gh_id gh)) \<and>
           status row = ''Discovered'' \<and> posting_id row = next_posting_id s"
  using assms by (simp add: insert_posting_def stored_iff Let_def posting_key_def)

lemma scout_try_healthy:
  assumes "extraction env gh = Parsed raw" and "\<not> insert_throws env gh"
  shows "rows_with_key ''greenhouse'' (String (gh_id gh)) s \<noteq> [] \<Longrightarrow>
           scout_try env target gh s = Inr s"
    and "rows_with_key ''greenhouse'' (String (gh_id gh)) s = [] \<Longrightarrow>
           \<exists>row s'. scout_try env target gh s = Inr s' \<and>
             job_postings s' = job_postings s @ [row] \<and>
             normalizeQueue s' = normalizeQueue s @ [posting_id row] \<and>
             posting_key row = (''greenhouse'', String (gh_id gh)) \<and>
             status row = ''Discovered''"
proof -
  let ?ex = "\<lparr>ef_level = or_unknown (raw_level raw),
              ef_remoteMode = or_unknown (raw_remoteMode raw),
              ef_visaSponsorship = or_unknown (raw_visaSponsorship raw),
              structured = rest raw\<rparr>"
  have ex: "extractStructuredFields (extraction env gh) = Inr ?ex"
    using assms(1) by (simp add: extractStructuredFields_def)
  show "rows_with_key ''greenhouse'' (String (gh_id gh)) s \<noteq> [] \<Longrightarrow>
           scout_try env target gh s = Inr s"
    using assms(2) ex by (simp add: scout_try_def insert_posting_conflict)
  assume "rows_with_key ''greenhouse'' (String (gh_id gh)) s = []"
  from insert_posting_new [OF this, of target ?ex] obtain row s1 where
    i: "insert_posting target gh ?ex s = (Some (posting_id row), s1)"
       "job_postings s1 = job_postings s @ [row]"
       "normalizeQueue s1 = normalizeQueue s"
       "posting_key row = (''greenhouse'', String (gh_id gh))"
       "status row = ''Discovered''"
    by blast
  show "\<exists>row s'. scout_try env target gh s = Inr s' \<and>
             job_postings s' = job_postings s @ [row] \<and>
             normalizeQueue s' = normalizeQueue s @ [posting_id row] \<and>
             posting_key row = (''greenhouse'', String (gh_id gh)) \<and>
             status row = ''Discovered''"
    using assms(2) ex i by (simp add: scout_try_def)
qed

lemma scout_try_failed:
  assumes "scout_try env target gh s = Inl (e, s')"
  shows "s' = s"
  using assms
  by (auto simp: scout_try_def split: sum.splits if_splits prod.splits option.splits)

lemma scout_try_cases:
  "(\<exists>e. scout_try env target gh s = Inl (e, s)) \<or>
   (\<exists>s'. scout_try env target gh s = Inr s')"
proof (cases "scout_try env target gh s")
  case (Inl a)
  then show ?thesis using scout_try_failed [of env target gh s "fst a" "snd a"]
    by (cases a) auto
next
  case (Inr b)
  then show ?thesis by simp
qed

lemma scout_try_grows:
  assumes "scout_try env target gh s = Inr s'"
  shows "grows s s'"
proof (cases "extraction env gh")
  case CallThrows
  with assms show ?thesis by (simp add: scout_try_def extractStructuredFields_def)
next
  case BadJson
  with assms show ?thesis by (simp add: scout_try_def extractStructuredFields_def)
next
  case (Parsed raw)
  show ?thesis
  proof (cases "insert_throws env gh")
    case True
    with assms Parsed show ?thesis by (simp add: scout_try_def extractStructuredFields_def)
  next
    case False
    show ?thesis
    proof (cases "rows_with_key ''greenhouse'' (String (gh_id gh)) s = []")
      case stored: False
      from scout_try_healthy(1) [OF Parsed False stored, of target] assms
      show ?thesis by (simp add: grows_refl)
    next
      case True
      from scout_try_healthy(2) [OF Parsed False True, of target] assms obtain row where
        r: "job_postings s' = job_postings s @ [row]"
           "normalizeQueue s' = normalizeQueue s @ [posting_id row]"
           "posting_key row = (''greenhouse'', String (gh_id gh))"
        by auto
      have "posting_key row \<notin> posting_key ` set (job_postings s)"
        using True r(3) by (auto simp: rows_with_key_def posting_key_def filter_empty_conv)
      then have "distinct (map posting_key (job_postings s)) \<longrightarrow>
                 distinct (map posting_key (job_postings s'))"
        by (simp add: r(1))
      with r(1,2) show ?thesis
        unfolding grows_def by (intro exI [of _ "[row]"]) simp
    qed
  qed
qed

lemma sample_healthy:
  "extraction sample_env sample_gh = Parsed sample_raw"
  "\<not> insert_throws sample_env sample_gh"
  by (simp_all add: sample_env_def sample_gh_def sample_raw_def)

lemma sample_gh_relevant: "relevant_title (gh_title sample_gh)"
  by code_simp

lemma sample_gh_new: "rows_with_key ''greenhouse'' (String (gh_id sample_gh)) sample_state = []"
  by code_simp

text \<open>
  C5. Scout's insert is keyed on the source and the source's job id. In a store whose
  keys are unique, discovering a posting (extraction and insert both answering) stores a
  new \<open>Discovered\<close> row and adds one Normalize task, for that row, when the key was
  not stored; when it was, nothing changes. Either way the key then has exactly one
  row, and discovering the same key again, from any board and with any extraction
  result, returns the state as it is: no second row and no second task.
\<close>

theorem discovery_dedup:
  assumes uniq: "distinct (map posting_key (job_postings s))"
    and e1: "extraction env1 gh1 = Parsed raw1" and i1: "\<not> insert_throws env1 gh1"
    and e2: "extraction env2 gh2 = Parsed raw2" and i2: "\<not> insert_throws env2 gh2"
    and same: "gh_id gh2 = gh_id gh1"
  shows "\<exists>s1. scout_try env1 target1 gh1 s = Inr s1 \<and>
           scout_try env2 target2 gh2 s1 = Inr s1 \<and>
           length (rows_with_key ''greenhouse'' (String (gh_id gh1)) s1) = 1 \<and>
           (if rows_with_key ''greenhouse'' (String (gh_id gh1)) s = []
            then \<exists>row. job_postings s1 = job_postings s @ [row] \<and>
                   normalizeQueue s1 = normalizeQueue s @ [posting_id row] \<and>
                   status row = ''Discovered''
            else s1 = s)"
proof (cases "rows_with_key ''greenhouse'' (String (gh_id gh1)) s = []")
  case True
  from scout_try_healthy(2) [OF e1 i1 True, of target1] obtain row s1 where
    r: "scout_try env1 target1 gh1 s = Inr s1"
       "job_postings s1 = job_postings s @ [row]"
       "normalizeQueue s1 = normalizeQueue s @ [posting_id row]"
       "posting_key row = (''greenhouse'', String (gh_id gh1))"
       "status row = ''Discovered''"
    by blast
  have rows: "rows_with_key ''greenhouse'' (String (gh_id gh1)) s1 = [row]"
    using True r(2,4) by (simp add: rows_with_key_def posting_key_def)
  then have "rows_with_key ''greenhouse'' (String (gh_id gh2)) s1 \<noteq> []"
    by (simp add: same)
  from scout_try_healthy(1) [OF e2 i2 this, of target2]
  have "scout_try env2 target2 gh2 s1 = Inr s1" .
  with r rows True show ?thesis
    by auto
next
  case False
  from scout_try_healthy(1) [OF e1 i1 False, of target1]
  have r1: "scout_try env1 target1 gh1 s = Inr s" .
  from False have "rows_with_key ''greenhouse'' (String (gh_id gh2)) s \<noteq> []"
    by (simp add: same)
  from scout_try_healthy(1) [OF e2 i2 this, of target2]
  have r2: "scout_try env2 target2 gh2 s = Inr s" .
  have "length (rows_with_key ''greenhouse'' (String (gh_id gh1)) s) = 1"
    using rows_with_key_unique [OF uniq, of "''greenhouse''" "String (gh_id gh1)"] False
    by (cases "rows_with_key ''greenhouse'' (String (gh_id gh1)) s") auto
  with r1 r2 False show ?thesis
    by simp
qed

theorem discovery_dedup_witness:
  "distinct (map posting_key (job_postings sample_state)) \<and>
   extraction sample_env sample_gh = Parsed sample_raw \<and>
   \<not> insert_throws sample_env sample_gh \<and>
   rows_with_key ''greenhouse'' (String (gh_id sample_gh)) sample_state = [] \<and>
   (\<exists>s1 row.
      scout_try sample_env (''OpenAI'', ''openai'') sample_gh sample_state = Inr s1 \<and>
      scout_try sample_env (''Stripe'', ''stripe'') sample_gh s1 = Inr s1 \<and>
      length (rows_with_key ''greenhouse'' (String (gh_id sample_gh)) s1) = 1 \<and>
      job_postings s1 = job_postings sample_state @ [row] \<and>
      normalizeQueue s1 = normalizeQueue sample_state @ [posting_id row] \<and>
      status row = ''Discovered'')"
proof -
  have u: "distinct (map posting_key (job_postings sample_state))"
    by (simp add: sample_state_def)
  from discovery_dedup [OF u sample_healthy sample_healthy refl,
      of "(''OpenAI'', ''openai'')" "(''Stripe'', ''stripe'')"]
  show ?thesis
    using u sample_healthy sample_gh_new by auto
qed

section \<open>Scout: the two loops\<close>

lemma scout_postings_resolves:
  "\<exists>s'. scout_postings env target ghs s = Inr s' \<and> grows s s' \<and>
     (\<forall>gh \<in> set ghs. \<forall>raw. extraction env gh = Parsed raw \<longrightarrow> \<not> insert_throws env gh \<longrightarrow>
        rows_with_key ''greenhouse'' (String (gh_id gh)) s' \<noteq> [])"
proof (induction ghs arbitrary: s)
  case Nil
  then show ?case by (simp add: grows_refl)
next
  case (Cons gh ghs)
  from scout_try_cases [of env target gh s] obtain s1 where
    step: "scout_postings env target (gh # ghs) s = scout_postings env target ghs s1"
    and g1: "grows s s1"
    and h1: "\<And>raw. extraction env gh = Parsed raw \<Longrightarrow> \<not> insert_throws env gh \<Longrightarrow>
               rows_with_key ''greenhouse'' (String (gh_id gh)) s1 \<noteq> []"
  proof
    assume "\<exists>e. scout_try env target gh s = Inl (e, s)"
    then obtain e where f: "scout_try env target gh s = Inl (e, s)" ..
    let ?s1 = "logger (Error ''[scout] failed to process job'') s"
    have "scout_postings env target (gh # ghs) s = scout_postings env target ghs ?s1"
      using f by simp
    moreover have "grows s ?s1"
      by (simp add: grows_logger grows_refl)
    moreover have "rows_with_key ''greenhouse'' (String (gh_id gh)) ?s1 \<noteq> []"
      if "extraction env gh = Parsed raw" "\<not> insert_throws env gh" for raw
    proof (cases "rows_with_key ''greenhouse'' (String (gh_id gh)) s = []")
      case True
      from scout_try_healthy(2) [OF that True, of target] f show ?thesis by simp
    next
      case False
      from scout_try_healthy(1) [OF that False, of target] f show ?thesis by simp
    qed
    ultimately show ?thesis by (rule that)
  next
    assume "\<exists>s'. scout_try env target gh s = Inr s'"
    then obtain s1 where f: "scout_try env target gh s = Inr s1" ..
    have "scout_postings env target (gh # ghs) s = scout_postings env target ghs s1"
      using f by simp
    moreover have "grows s s1"
      using f by (rule scout_try_grows)
    moreover have "rows_with_key ''greenhouse'' (String (gh_id gh)) s1 \<noteq> []"
      if "extraction env gh = Parsed raw" "\<not> insert_throws env gh" for raw
    proof (cases "rows_with_key ''greenhouse'' (String (gh_id gh)) s = []")
      case True
      from scout_try_healthy(2) [OF that True, of target] f obtain row where
        "job_postings s1 = job_postings s @ [row]"
        "posting_key row = (''greenhouse'', String (gh_id gh))"
        by auto
      then show ?thesis by (simp add: rows_with_key_def posting_key_def)
    next
      case False
      from scout_try_healthy(1) [OF that False, of target] f show ?thesis
        using False by simp
    qed
    ultimately show ?thesis by (rule that)
  qed
  from Cons.IH [of s1] obtain s' where
    r: "scout_postings env target ghs s1 = Inr s'" and g2: "grows s1 s'"
    and h2: "\<forall>gh \<in> set ghs. \<forall>raw. extraction env gh = Parsed raw \<longrightarrow> \<not> insert_throws env gh \<longrightarrow>
        rows_with_key ''greenhouse'' (String (gh_id gh)) s' \<noteq> []"
    by blast
  have "rows_with_key ''greenhouse'' (String (gh_id gh)) s' \<noteq> []"
    if "extraction env gh = Parsed raw" "\<not> insert_throws env gh" for raw
    using grows_stored [OF g2 h1 [OF that]] .
  with step r g1 g2 h2 show ?case
    by (auto intro: grows_trans)
qed

lemma scout_targets_resolves:
  "\<exists>s'. scout_targets env targets s = Inr s' \<and> grows s s' \<and>
     (\<forall>target \<in> set targets. \<forall>jobs. http env (snd target) = OkJson (Some jobs) \<longrightarrow>
        (\<forall>gh \<in> set jobs. relevant_title (gh_title gh) \<longrightarrow>
           (\<forall>raw. extraction env gh = Parsed raw \<longrightarrow> \<not> insert_throws env gh \<longrightarrow>
              rows_with_key ''greenhouse'' (String (gh_id gh)) s' \<noteq> [])))"
proof (induction targets arbitrary: s)
  case Nil
  then show ?case by (simp add: grows_refl)
next
  case (Cons target targets)
  have "\<exists>s3. scout_targets env (target # targets) s = scout_targets env targets s3 \<and>
          grows s s3 \<and>
          (\<forall>jobs. http env (snd target) = OkJson (Some jobs) \<longrightarrow>
            (\<forall>gh \<in> set jobs. relevant_title (gh_title gh) \<longrightarrow>
              (\<forall>raw. extraction env gh = Parsed raw \<longrightarrow> \<not> insert_throws env gh \<longrightarrow>
                rows_with_key ''greenhouse'' (String (gh_id gh)) s3 \<noteq> [])))"
  proof (cases "http env (snd target)")
    case FetchThrows
    let ?s3 = "logger (Error ''[scout] fetch failed, skipping'') s"
    have "scout_targets env (target # targets) s = scout_targets env targets ?s3"
      using FetchThrows by (simp add: fetchGreenhouseJobs_def)
    moreover have "grows s ?s3"
      by (simp add: grows_logger grows_refl)
    ultimately show ?thesis
      using FetchThrows by auto
  next
    case (NonOk st)
    let ?s3 = "logger (Info ''[scout] fetched greenhouse'')
                 (logger (Warn ''[scout] greenhouse fetch non-ok'') s)"
    have "scout_targets env (target # targets) s = scout_targets env targets ?s3"
      using NonOk by (simp add: fetchGreenhouseJobs_def)
    moreover have "grows s ?s3"
      by (simp add: grows_logger grows_refl)
    ultimately show ?thesis
      using NonOk by auto
  next
    case (OkJson jo)
    let ?s2 = "logger (Info ''[scout] fetched greenhouse'') s"
    let ?relevant = "filter (\<lambda>j. relevant_title (gh_title j)) (nullish jo [])"
    from scout_postings_resolves [of env target ?relevant ?s2] obtain s3 where
      r: "scout_postings env target ?relevant ?s2 = Inr s3" and g: "grows ?s2 s3"
      and h: "\<forall>gh \<in> set ?relevant. \<forall>raw. extraction env gh = Parsed raw \<longrightarrow>
                \<not> insert_throws env gh \<longrightarrow>
                rows_with_key ''greenhouse'' (String (gh_id gh)) s3 \<noteq> []"
      by blast
    have "scout_targets env (target # targets) s = scout_targets env targets s3"
      using OkJson r by (simp add: fetchGreenhouseJobs_def)
    moreover have "grows s s3"
      using grows_trans [OF grows_logger [OF grows_refl] g] .
    moreover have "\<forall>jobs. http env (snd target) = OkJson (Some jobs) \<longrightarrow>
            (\<forall>gh \<in> set jobs. relevant_title (gh_title gh) \<longrightarrow>
              (\<forall>raw. extraction env gh = Parsed raw \<longrightarrow> \<not> insert_throws env gh \<longrightarrow>
                rows_with_key ''greenhouse'' (String (gh_id gh)) s3 \<noteq> []))"
      using h OkJson by (auto simp: nullish_def)
    ultimately show ?thesis by blast
  qed
  then obtain s3 where
    step: "scout_targets env (target # targets) s = scout_targets env targets s3"
    and g1: "grows s s3"
    and h1: "\<forall>jobs. http env (snd target) = OkJson (Some jobs) \<longrightarrow>
            (\<forall>gh \<in> set jobs. relevant_title (gh_title gh) \<longrightarrow>
              (\<forall>raw. extraction env gh = Parsed raw \<longrightarrow> \<not> insert_throws env gh \<longrightarrow>
                rows_with_key ''greenhouse'' (String (gh_id gh)) s3 \<noteq> []))"
    by blast
  from Cons.IH [of s3] obtain s' where
    r: "scout_targets env targets s3 = Inr s'" and g2: "grows s3 s'"
    and h2: "\<forall>target \<in> set targets. \<forall>jobs. http env (snd target) = OkJson (Some jobs) \<longrightarrow>
        (\<forall>gh \<in> set jobs. relevant_title (gh_title gh) \<longrightarrow>
           (\<forall>raw. extraction env gh = Parsed raw \<longrightarrow> \<not> insert_throws env gh \<longrightarrow>
              rows_with_key ''greenhouse'' (String (gh_id gh)) s' \<noteq> []))"
    by blast
  have "\<forall>jobs. http env (snd target) = OkJson (Some jobs) \<longrightarrow>
            (\<forall>gh \<in> set jobs. relevant_title (gh_title gh) \<longrightarrow>
              (\<forall>raw. extraction env gh = Parsed raw \<longrightarrow> \<not> insert_throws env gh \<longrightarrow>
                rows_with_key ''greenhouse'' (String (gh_id gh)) s' \<noteq> []))"
    using h1 grows_stored [OF g2] by blast
  with step r h2 grows_trans [OF g1 g2] show ?case
    by simp
qed

text \<open>
  The same at the level of a whole run: the run appends rows, adds to the Normalize queue
  exactly the ids of the rows it appended, in order, and keeps the keys unique.
\<close>

lemma runScout_dedup:
  "\<exists>s' new. runScout env s = Inr s' \<and> job_postings s' = job_postings s @ new \<and>
     normalizeQueue s' = normalizeQueue s @ map posting_id new \<and>
     (distinct (map posting_key (job_postings s)) \<longrightarrow>
      distinct (map posting_key (job_postings s')))"
proof -
  from scout_targets_resolves [of env GREENHOUSE_TARGETS s] obtain s1 where
    r: "scout_targets env GREENHOUSE_TARGETS s = Inr s1" and g: "grows s s1"
    by blast
  have "runScout env s = Inr (logger (Info ''[scout] run complete'') s1)"
    using r by (simp add: runScout_def)
  with grows_logger [OF g, of "Info ''[scout] run complete''"] show ?thesis
    unfolding grows_def by auto
qed

text \<open>
  C8. A Scout run resolves whatever fails during it, and only adds rows to the postings
  table. Whichever boards cannot be fetched and whichever postings fail in extraction or
  insert, every relevant posting of every board that was fetched, whose own extraction
  and insert answer, is stored when the run ends.
\<close>

theorem scout_failure_isolation:
  "\<exists>s' new. runScout env s = Inr s' \<and> job_postings s' = job_postings s @ new \<and>
     (\<forall>target \<in> set GREENHOUSE_TARGETS. \<forall>jobs.
        http env (snd target) = OkJson (Some jobs) \<longrightarrow>
        (\<forall>gh \<in> set jobs. relevant_title (gh_title gh) \<longrightarrow>
           (\<forall>raw. extraction env gh = Parsed raw \<longrightarrow> \<not> insert_throws env gh \<longrightarrow>
              rows_with_key ''greenhouse'' (String (gh_id gh)) s' \<noteq> [])))"
proof -
  from scout_targets_resolves [of env GREENHOUSE_TARGETS s] obtain s1 where
    r: "scout_targets env GREENHOUSE_TARGETS s = Inr s1" and g: "grows s s1"
    and h: "\<forall>target \<in> set GREENHOUSE_TARGETS. \<forall>jobs.
        http env (snd target) = OkJson (Some jobs) \<longrightarrow>
        (\<forall>gh \<in> set jobs. relevant_title (gh_title gh) \<longrightarrow>
           (\<forall>raw. extraction env gh = Parsed raw \<longrightarrow> \<not> insert_throws env gh \<longrightarrow>
              rows_with_key ''greenhouse'' (String (gh_id gh)) s1 \<noteq> []))"
    by blast
  let ?s' = "logger (Info ''[scout] run complete'') s1"
  have "runScout env s = Inr ?s'"
    using r by (simp add: runScout_def)
  moreover from g obtain new where "job_postings ?s' = job_postings s @ new"
    unfolding grows_def by auto
  moreover have "rows_with_key src sid ?s' = rows_with_key src sid s1" for src sid
    by (simp add: rows_with_key_def)
  ultimately show ?thesis
    using h by auto
qed

theorem scout_failure_isolation_witness:
  "(''OpenAI'', ''openai'') \<in> set GREENHOUSE_TARGETS \<and>
   http sample_env ''anthropic'' = FetchThrows \<and>
   http sample_env ''openai'' = OkJson (Some [failing_gh, sample_gh]) \<and>
   extraction sample_env failing_gh = CallThrows \<and>
   relevant_title (gh_title sample_gh) \<and>
   extraction sample_env sample_gh = Parsed sample_raw \<and>
   \<not> insert_throws sample_env sample_gh \<and>
   (\<exists>s'. runScout sample_env sample_state = Inr s' \<and>
         rows_with_key ''greenhouse'' (String (gh_id sample_gh)) s' \<noteq> [])"
proof -
  have t: "(''OpenAI'', ''openai'') \<in> set GREENHOUSE_TARGETS"
    by (simp add: GREENHOUSE_TARGETS_def)
  have f: "http sample_env ''anthropic'' = FetchThrows"
    and h: "http sample_env (snd (''OpenAI'', ''openai'')) = OkJson (Some [failing_gh, sample_gh])"
    and x: "extraction sample_env failing_gh = CallThrows"
    by (simp_all add: sample_env_def failing_gh_def)
  have m: "sample_gh \<in> set [failing_gh, sample_gh]"
    by simp
  from scout_failure_isolation [of sample_env sample_state] obtain s' where
    r: "runScout sample_env sample_state = Inr s'"
    and a: "\<forall>target \<in> set GREENHOUSE_TARGETS. \<forall>jobs.
        http sample_env (snd target) = OkJson (Some jobs) \<longrightarrow>
        (\<forall>gh \<in> set jobs. relevant_title (gh_title gh) \<longrightarrow>
           (\<forall>raw. extraction sample_env gh = Parsed raw \<longrightarrow> \<not> insert_throws sample_env gh \<longrightarrow>
              rows_with_key ''greenhouse'' (String (gh_id gh)) s' \<noteq> []))"
    by blast
  from a t h m sample_gh_relevant sample_healthy
  have "rows_with_key ''greenhouse'' (String (gh_id sample_gh)) s' \<noteq> []"
    by blast
  with r t f h x sample_gh_relevant sample_healthy show ?thesis
    by auto
qed

end
